theory Spec2Isabelle
  imports Main "HOL-Library.Word" "HOL-Library.Sublist"
begin

unbundle bit_operations_syntax

section \<open>Values, errors and the environment\<close>

text \<open>
  The program is a command-line to-do manager: \<^verbatim>\<open>models.py\<close> (the record),
  \<^verbatim>\<open>storage.py\<close> (load and save of the whole collection as one JSON file) and
  \<^verbatim>\<open>cli.py\<close> (the command handlers). Everything the code takes from outside is a
  field of the record \<open>world\<close>, threaded through every function that has an effect.

  \<^item> \<open>json\<close> is the Python value that \<^verbatim>\<open>json.load\<close> returns and \<^verbatim>\<open>json.dump\<close> accepts
    (\<^verbatim>\<open>None\<close>, \<^verbatim>\<open>bool\<close>, a number, \<^verbatim>\<open>str\<close>, \<^verbatim>\<open>list\<close>, \<^verbatim>\<open>dict\<close>). A \<^verbatim>\<open>dict\<close> is an
    association list in insertion order; a Python \<^verbatim>\<open>dict\<close> never repeats a key.
  \<^item> A file holds either a complete JSON document, kept as the value it parses to
    (\<open>Json v\<close>: the standard library's \<^verbatim>\<open>json.load\<close> inverts \<^verbatim>\<open>json.dump\<close>, and
    indentation is not load-significant), or text that is no JSON document
    (\<open>Unparsable s\<close>: an empty file, a torn write).
  \<^item> A \<^verbatim>\<open>str\<close> is kept as its UTF-8 encoding, a \<open>char list\<close>. The encoding is
    one-to-one, and one string occurs in another exactly when its encoding occurs in the
    other's, so \<^verbatim>\<open>==\<close> and \<^verbatim>\<open>in\<close> are equality and \<open>sublist\<close> of the encodings. \<^verbatim>\<open>len\<close>
    and slicing count code points (\<open>code_points\<close>), not bytes. \<open>str_lower w\<close> is
    \<^verbatim>\<open>str.lower\<close>, the library's Unicode lower-casing, taken as it is: no theorem
    about the program depends on what it returns, and the examples fix it on ASCII text.
  \<^item> A path is the list of its components; \<open>[]\<close> is the current directory.
    Directories and permissions are not tracked: what they can cause is a failing
    system call, and \<open>fault w\<close> names the system call (if any) that fails in this world.
    A failing \<^verbatim>\<open>write\<close> leaves \<open>torn w\<close> in the file it was writing.
  \<^item> \<open>tmp_names\<close> are the random names \<^verbatim>\<open>tempfile.mkstemp\<close> tries, \<open>uuid_src\<close> the values
    \<^verbatim>\<open>uuid.uuid4()\<close> returns and \<open>clock\<close> the texts
    \<^verbatim>\<open>datetime.now(timezone.utc).isoformat()\<close> returns, each in the order of the calls;
    \<open>uuid_n\<close> and \<open>ticks\<close> count the calls made so far.
\<close>

datatype json =
    JNull
  | JBool bool
  | JNum int
  | JStr string
  | JArr "json list"
  | JObj "(string \<times> json) list"

type_synonym path = "string list"

datatype contents = Json json | Unparsable string

datatype syscall = Open | Mkdir | Mkstemp | Fdopen | Write | Replace

text \<open>
  \<open>OutOfModel\<close> is no Python exception. The dataclass does not check its annotations:
  given a value of another type for a field, the source builds an object that holds it
  and fails later, wherever the value is first used as a \<^verbatim>\<open>str\<close> or a \<^verbatim>\<open>bool\<close>. The record
  below has the annotated types, cannot hold such an object, and the model stops there.
\<close>

datatype error =
    TypeError
  | JSONDecodeError
  | FileExistsError
  | OSError syscall
  | OutOfModel

text \<open>
  A line of the error stream: \<open>Not_found i\<close> is the line
  \<^verbatim>\<open>Error: item <repr of i> not found.\<close> (Python's \<^verbatim>\<open>repr\<close> of a string is not modelled).
\<close>

datatype err_line = Not_found string

record world =
  files :: "path \<rightharpoonup> contents"
  fault :: "syscall option"
  torn :: string
  tmp_names :: "string list"
  environ_TODO_DB :: "path option"
  str_lower :: "string \<Rightarrow> string"
  uuid_src :: "nat \<Rightarrow> 128 word"
  uuid_n :: nat
  clock :: "nat \<Rightarrow> string"
  ticks :: nat
  stdout :: "string list"
  stderr :: "err_line list"

text \<open>
  The code points of a string: a byte from 128 to 191 continues the code point that the
  byte before it belongs to, every other byte starts one.
\<close>

definition is_continuation :: "char \<Rightarrow> bool" where
  "is_continuation c = (128 \<le> (of_char c :: nat) \<and> (of_char c :: nat) < 192)"

function code_points :: "string \<Rightarrow> string list" where
  "code_points [] = []"
| "code_points (c # cs) =
     (c # takeWhile is_continuation cs) # code_points (dropWhile is_continuation cs)"
  by pat_completeness auto
termination
  by (relation "measure length") (auto simp: less_Suc_eq_le length_dropWhile_le)

definition len :: "string \<Rightarrow> nat" where
  "len s = length (code_points s)"

text \<open>The slice \<^verbatim>\<open>s[:n]\<close>.\<close>

definition slice_to :: "nat \<Rightarrow> string \<Rightarrow> string" where
  "slice_to n s = concat (take n (code_points s))"

section \<open>models.py\<close>

definition now_iso :: "world \<Rightarrow> string \<times> world" where
  "now_iso w = (clock w (ticks w), w\<lparr>ticks := Suc (ticks w)\<rparr>)"

text \<open>
  \<^verbatim>\<open>str(uuid.uuid4())\<close>: the 128-bit value as 32 lower-case hexadecimal digits, most
  significant first, in groups of 8, 4, 4, 4 and 12 separated by hyphens.
\<close>

definition hex_digit :: "nat \<Rightarrow> char" where
  "hex_digit n = ''0123456789abcdef'' ! n"

definition nibble :: "128 word \<Rightarrow> nat \<Rightarrow> nat" where
  "nibble u k = unat (drop_bit (4 * k) u AND 15)"

definition hex32 :: "128 word \<Rightarrow> string" where
  "hex32 u = map (\<lambda>i. hex_digit (nibble u (31 - i))) [0..<32]"

definition uuid_str :: "128 word \<Rightarrow> string" where
  "uuid_str u =
     (let h = hex32 u
      in take 8 h @ ''-'' @ take 4 (drop 8 h) @ ''-'' @ take 4 (drop 12 h) @ ''-'' @
         take 4 (drop 16 h) @ ''-'' @ drop 20 h)"

definition new_id :: "world \<Rightarrow> string \<times> world" where
  "new_id w = (uuid_str (uuid_src w (uuid_n w)), w\<lparr>uuid_n := Suc (uuid_n w)\<rparr>)"

text \<open>
  The dataclass. The fields \<^verbatim>\<open>done\<close> and \<^verbatim>\<open>id\<close> are \<open>done'\<close> and \<open>id'\<close> here.
\<close>

record TodoItem =
  title :: string
  category :: string
  done' :: bool
  id' :: string
  created_at :: string
  updated_at :: string

text \<open>
  The generated \<^verbatim>\<open>__init__(title, category="General", done=False, id=<factory>,
  created_at=<factory>, updated_at=<factory>)\<close>: an argument that is not given is \<open>None\<close>
  here. The default factories run in field order, each only when its argument is
  missing: \<^verbatim>\<open>_new_id\<close>, then \<^verbatim>\<open>_now_iso\<close> for \<^verbatim>\<open>created_at\<close>, then \<^verbatim>\<open>_now_iso\<close> again for
  \<^verbatim>\<open>updated_at\<close>.
\<close>

definition new_TodoItem ::
  "string \<Rightarrow> string option \<Rightarrow> bool option \<Rightarrow> string option \<Rightarrow> string option \<Rightarrow>
   string option \<Rightarrow> world \<Rightarrow> TodoItem \<times> world" where
  "new_TodoItem t c d i ca ua w =
     (let (i1, w1) = (case i of Some v \<Rightarrow> (v, w) | None \<Rightarrow> new_id w);
          (ca1, w2) = (case ca of Some v \<Rightarrow> (v, w1) | None \<Rightarrow> now_iso w1);
          (ua1, w3) = (case ua of Some v \<Rightarrow> (v, w2) | None \<Rightarrow> now_iso w2)
      in (\<lparr>title = t,
           category = (case c of Some v \<Rightarrow> v | None \<Rightarrow> ''General''),
           done' = (case d of Some v \<Rightarrow> v | None \<Rightarrow> False),
           id' = i1, created_at = ca1, updated_at = ua1\<rparr>, w3))"

definition touch :: "TodoItem \<Rightarrow> world \<Rightarrow> TodoItem \<times> world" where
  "touch item w = (let (t, w1) = now_iso w in (item\<lparr>updated_at := t\<rparr>, w1))"

text \<open>\<^verbatim>\<open>asdict(self)\<close>: one entry per field, in field order.\<close>

definition to_dict :: "TodoItem \<Rightarrow> json" where
  "to_dict item =
     JObj [(''title'', JStr (title item)),
           (''category'', JStr (category item)),
           (''done'', JBool (done' item)),
           (''id'', JStr (id' item)),
           (''created_at'', JStr (created_at item)),
           (''updated_at'', JStr (updated_at item))]"

definition field_names :: "string list" where
  "field_names = [''title'', ''category'', ''done'', ''id'', ''created_at'', ''updated_at'']"

fun well_typed_entry :: "string \<times> json \<Rightarrow> bool" where
  "well_typed_entry (k, JStr s) = (k \<noteq> ''done'')"
| "well_typed_entry (k, JBool b) = (k = ''done'')"
| "well_typed_entry (k, v) = False"

definition get_str :: "(string \<times> json) list \<Rightarrow> string \<Rightarrow> string option" where
  "get_str kvs k = (case map_of kvs k of Some (JStr s) \<Rightarrow> Some s | _ \<Rightarrow> None)"

definition get_bool :: "(string \<times> json) list \<Rightarrow> string \<Rightarrow> bool option" where
  "get_bool kvs k = (case map_of kvs k of Some (JBool b) \<Rightarrow> Some b | _ \<Rightarrow> None)"

text \<open>
  \<^verbatim>\<open>cls(**data)\<close>. Python raises \<^verbatim>\<open>TypeError\<close> when \<^verbatim>\<open>data\<close> is no mapping, when a key is
  not a parameter of \<^verbatim>\<open>__init__\<close> and when \<^verbatim>\<open>title\<close> is missing, all before \<^verbatim>\<open>__init__\<close>
  runs. Every other missing key takes its default.
\<close>

fun from_dict :: "json \<Rightarrow> world \<Rightarrow> (error + TodoItem) \<times> world" where
  "from_dict (JObj kvs) w =
     (if list_ex (\<lambda>k. k \<notin> set field_names) (map fst kvs) then (Inl TypeError, w)
      else case map_of kvs ''title'' of
             None \<Rightarrow> (Inl TypeError, w)
           | Some (JStr t) \<Rightarrow>
               if list_all well_typed_entry kvs
               then (let (item, w1) =
                           new_TodoItem t (get_str kvs ''category'') (get_bool kvs ''done'')
                             (get_str kvs ''id'') (get_str kvs ''created_at'')
                             (get_str kvs ''updated_at'') w
                     in (Inr item, w1))
               else (Inl OutOfModel, w)
           | Some _ \<Rightarrow> (Inl OutOfModel, w))"
| "from_dict v w = (Inl TypeError, w)"

section \<open>storage.py\<close>

definition DEFAULT_DB :: path where
  "DEFAULT_DB = [''todo_data.json'']"

definition db_path :: "world \<Rightarrow> path" where
  "db_path w = (case environ_TODO_DB w of Some q \<Rightarrow> q | None \<Rightarrow> DEFAULT_DB)"

text \<open>\<^verbatim>\<open>path or _db_path()\<close>: a \<^verbatim>\<open>Path\<close> object is always true.\<close>

definition path_or_default :: "path option \<Rightarrow> world \<Rightarrow> path" where
  "path_or_default path w = (case path of Some q \<Rightarrow> q | None \<Rightarrow> db_path w)"

definition parent :: "path \<Rightarrow> path" where
  "parent p = butlast p"

definition json_load :: "contents \<Rightarrow> error + json" where
  "json_load c = (case c of Json v \<Rightarrow> Inr v | Unparsable s \<Rightarrow> Inl JSONDecodeError)"

text \<open>
  \<^verbatim>\<open>for d in data\<close>: a list yields its elements, a \<^verbatim>\<open>dict\<close> its keys, a \<^verbatim>\<open>str\<close> its
  characters; nothing else is iterable.
\<close>

fun iter :: "json \<Rightarrow> error + json list" where
  "iter (JArr xs) = Inr xs"
| "iter (JObj kvs) = Inr (map (\<lambda>kv. JStr (fst kv)) kvs)"
| "iter (JStr s) = Inr (map JStr (code_points s))"
| "iter v = Inl TypeError"

text \<open>\<^verbatim>\<open>[TodoItem.from_dict(d) for d in data]\<close>: the first exception ends the loop.\<close>

fun from_dicts :: "json list \<Rightarrow> world \<Rightarrow> (error + TodoItem list) \<times> world" where
  "from_dicts [] w = (Inr [], w)"
| "from_dicts (d # ds) w =
     (case from_dict d w of
        (Inl e, w1) \<Rightarrow> (Inl e, w1)
      | (Inr item, w1) \<Rightarrow>
          (case from_dicts ds w1 of
             (Inl e, w2) \<Rightarrow> (Inl e, w2)
           | (Inr items, w2) \<Rightarrow> (Inr (item # items), w2)))"

definition load_items :: "path option \<Rightarrow> world \<Rightarrow> (error + TodoItem list) \<times> world" where
  "load_items path w =
     (let p = path_or_default path w
      in case files w p of
           None \<Rightarrow> (Inr [], w)
         | Some c \<Rightarrow>
             if fault w = Some Open then (Inl (OSError Open), w)
             else (case json_load c of
                     Inl e \<Rightarrow> (Inl e, w)
                   | Inr data \<Rightarrow>
                       (case iter data of
                          Inl e \<Rightarrow> (Inl e, w)
                        | Inr ds \<Rightarrow> from_dicts ds w)))"

text \<open>
  The system calls of \<^verbatim>\<open>save_items\<close>. \<^verbatim>\<open>mkstemp\<close> tries its random names in turn and
  creates, empty, the first file that does not exist yet; it raises \<^verbatim>\<open>FileExistsError\<close>
  when it runs out of names. \<^verbatim>\<open>os.replace\<close> either renames or changes nothing.
\<close>

definition mkdir :: "path \<Rightarrow> world \<Rightarrow> (error + unit) \<times> world" where
  "mkdir d w = (if fault w = Some Mkdir then (Inl (OSError Mkdir), w) else (Inr (), w))"

definition tmp_path :: "path \<Rightarrow> string \<Rightarrow> string \<Rightarrow> path" where
  "tmp_path d sfx n = d @ [''tmp'' @ n @ sfx]"

definition mkstemp :: "path \<Rightarrow> string \<Rightarrow> world \<Rightarrow> (error + path) \<times> world" where
  "mkstemp d sfx w =
     (if fault w = Some Mkstemp then (Inl (OSError Mkstemp), w)
      else case dropWhile (\<lambda>n. files w (tmp_path d sfx n) \<noteq> None) (tmp_names w) of
             [] \<Rightarrow> (Inl FileExistsError, w\<lparr>tmp_names := []\<rparr>)
           | n # ns \<Rightarrow>
               (Inr (tmp_path d sfx n),
                w\<lparr>files := (files w)(tmp_path d sfx n \<mapsto> Unparsable []),
                  tmp_names := ns\<rparr>))"

text \<open>
  \<^verbatim>\<open>with os.fdopen(fd, "w") as f: json.dump(data, f, ...)\<close>, the file descriptor being
  that of the temporary file.
\<close>

definition dump_to :: "path \<Rightarrow> json \<Rightarrow> world \<Rightarrow> (error + unit) \<times> world" where
  "dump_to tmp data w =
     (if fault w = Some Fdopen then (Inl (OSError Fdopen), w)
      else if fault w = Some Write
      then (Inl (OSError Write), w\<lparr>files := (files w)(tmp \<mapsto> Unparsable (torn w))\<rparr>)
      else (Inr (), w\<lparr>files := (files w)(tmp \<mapsto> Json data)\<rparr>))"

definition os_replace :: "path \<Rightarrow> path \<Rightarrow> world \<Rightarrow> (error + unit) \<times> world" where
  "os_replace src dst w =
     (if fault w = Some Replace then (Inl (OSError Replace), w)
      else case files w src of
             None \<Rightarrow> (Inl (OSError Replace), w)
           | Some c \<Rightarrow> (Inr (), w\<lparr>files := ((files w)(src := None))(dst \<mapsto> c)\<rparr>))"

definition os_path_exists :: "path \<Rightarrow> world \<Rightarrow> bool" where
  "os_path_exists p w = (files w p \<noteq> None)"

definition os_unlink :: "path \<Rightarrow> world \<Rightarrow> world" where
  "os_unlink p w = w\<lparr>files := (files w)(p := None)\<rparr>"

definition save_items :: "TodoItem list \<Rightarrow> path option \<Rightarrow> world \<Rightarrow> (error + unit) \<times> world" where
  "save_items items path w =
     (let p = path_or_default path w;
          data = JArr (map to_dict items);
          dir = parent p
      in case mkdir dir w of
           (Inl e, w1) \<Rightarrow> (Inl e, w1)
         | (Inr u, w1) \<Rightarrow>
             (case mkstemp dir ''.tmp'' w1 of
                (Inl e, w2) \<Rightarrow> (Inl e, w2)
              | (Inr tmp, w2) \<Rightarrow>
                  (case (case dump_to tmp data w2 of
                           (Inl e, w3) \<Rightarrow> (Inl e, w3)
                         | (Inr u, w3) \<Rightarrow> os_replace tmp p w3) of
                     (Inl e, w4) \<Rightarrow>
                       (Inl e, if os_path_exists tmp w4 then os_unlink tmp w4 else w4)
                   | (Inr u, w4) \<Rightarrow> (Inr (), w4))))"

section \<open>cli.py\<close>

text \<open>
  \<^verbatim>\<open>_find_item\<close> returns a reference to the first item with the given id. The items of a
  loaded list are separate objects, so the reference is the item's position.
\<close>

fun find_item :: "TodoItem list \<Rightarrow> string \<Rightarrow> nat option" where
  "find_item [] i = None"
| "find_item (it # items) i =
     (if id' it = i then Some 0 else map_option Suc (find_item items i))"

definition headers :: "string list" where
  "headers = [''ID'', ''Title'', ''Category'', ''Done'', ''Created'', ''Updated'']"

definition row_of :: "TodoItem \<Rightarrow> string list" where
  "row_of it =
     [slice_to 8 (id' it), title it, category it, (if done' it then ''Yes'' else ''No''),
      slice_to 19 (created_at it), slice_to 19 (updated_at it)]"

definition widths_of :: "string list list \<Rightarrow> nat list" where
  "widths_of rows = foldl (\<lambda>ws row. map2 max ws (map len row)) (map len headers) rows"

definition ljust :: "nat \<Rightarrow> string \<Rightarrow> string" where
  "ljust n s = s @ replicate (n - len s) CHR '' ''"

fun join :: "string \<Rightarrow> string list \<Rightarrow> string" where
  "join sep [] = []"
| "join sep [s] = s"
| "join sep (s # ss) = s @ sep @ join sep ss"

definition fmt_row :: "nat list \<Rightarrow> string list \<Rightarrow> string" where
  "fmt_row ws cells = join ''  '' (map2 ljust ws cells)"

definition print_table :: "TodoItem list \<Rightarrow> string list" where
  "print_table items =
     (if items = [] then [''No items found.'']
      else (let rows = map row_of items; ws = widths_of rows
            in fmt_row ws headers # fmt_row ws (map (\<lambda>n. replicate n CHR ''-'') ws) #
               map (fmt_row ws) rows))"

definition print_out :: "string list \<Rightarrow> world \<Rightarrow> world" where
  "print_out ls w = w\<lparr>stdout := stdout w @ ls\<rparr>"

definition print_err :: "err_line \<Rightarrow> world \<Rightarrow> world" where
  "print_err l w = w\<lparr>stderr := stderr w @ [l]\<rparr>"

text \<open>The \<^verbatim>\<open>argparse.Namespace\<close> of each subcommand, as the parser fills it.\<close>

record add_args =
  a_title :: string
  a_category :: string

record update_args =
  u_id :: string
  u_title :: "string option"
  u_category :: "string option"
  u_done :: "bool option"

record delete_args =
  d_id :: string

record list_args =
  l_category :: "string option"
  l_done :: "bool option"
  l_search :: "string option"

definition cmd_add :: "add_args \<Rightarrow> path option \<Rightarrow> world \<Rightarrow> (error + int) \<times> world" where
  "cmd_add args db w =
     (case load_items db w of
        (Inl e, w1) \<Rightarrow> (Inl e, w1)
      | (Inr items, w1) \<Rightarrow>
          (let (item, w2) =
                 new_TodoItem (a_title args) (Some (a_category args)) None None None None w1
           in case save_items (items @ [item]) db w2 of
                (Inl e, w3) \<Rightarrow> (Inl e, w3)
              | (Inr u, w3) \<Rightarrow> (Inr 0, print_out [''Added: '' @ id' item] w3)))"

definition cmd_update :: "update_args \<Rightarrow> path option \<Rightarrow> world \<Rightarrow> (error + int) \<times> world" where
  "cmd_update args db w =
     (case load_items db w of
        (Inl e, w1) \<Rightarrow> (Inl e, w1)
      | (Inr items, w1) \<Rightarrow>
          (case find_item items (u_id args) of
             None \<Rightarrow> (Inr 1, print_err (Not_found (u_id args)) w1)
           | Some k \<Rightarrow>
               (let item = items ! k;
                    item1 = (case u_title args of Some t \<Rightarrow> item\<lparr>title := t\<rparr> | None \<Rightarrow> item);
                    item2 = (case u_category args of
                               Some c \<Rightarrow> item1\<lparr>category := c\<rparr> | None \<Rightarrow> item1);
                    item3 = (case u_done args of Some d \<Rightarrow> item2\<lparr>done' := d\<rparr> | None \<Rightarrow> item2);
                    changed = (u_title args \<noteq> None \<or> u_category args \<noteq> None \<or>
                               u_done args \<noteq> None)
                in if changed
                   then (let (item4, w2) = touch item3 w1
                         in case save_items (items[k := item4]) db w2 of
                              (Inl e, w3) \<Rightarrow> (Inl e, w3)
                            | (Inr u, w3) \<Rightarrow> (Inr 0, print_out [''Updated: '' @ id' item4] w3))
                   else (Inr 0, print_out [''Nothing to update.''] w1))))"

definition cmd_delete :: "delete_args \<Rightarrow> path option \<Rightarrow> world \<Rightarrow> (error + int) \<times> world" where
  "cmd_delete args db w =
     (case load_items db w of
        (Inl e, w1) \<Rightarrow> (Inl e, w1)
      | (Inr items, w1) \<Rightarrow>
          (let original_len = length items;
               items1 = filter (\<lambda>it. id' it \<noteq> d_id args) items
           in if length items1 = original_len
              then (Inr 1, print_err (Not_found (d_id args)) w1)
              else (case save_items items1 db w1 of
                      (Inl e, w2) \<Rightarrow> (Inl e, w2)
                    | (Inr u, w2) \<Rightarrow> (Inr 0, print_out [''Deleted: '' @ d_id args] w2))))"

text \<open>
  \<^verbatim>\<open>if args.category:\<close> and \<^verbatim>\<open>if args.search:\<close> test truth: \<^verbatim>\<open>None\<close> and the empty string
  both skip the filter. \<^verbatim>\<open>if args.done is not None:\<close> skips it for \<^verbatim>\<open>None\<close> only.
\<close>

definition cmd_list :: "list_args \<Rightarrow> path option \<Rightarrow> world \<Rightarrow> (error + int) \<times> world" where
  "cmd_list args db w =
     (case load_items db w of
        (Inl e, w1) \<Rightarrow> (Inl e, w1)
      | (Inr items, w1) \<Rightarrow>
          (let items1 = (case l_category args of
                           None \<Rightarrow> items
                         | Some c \<Rightarrow>
                             if c = [] then items
                             else filter (\<lambda>it. str_lower w1 (category it) =
                                                 str_lower w1 c) items);
               items2 = (case l_done args of
                           None \<Rightarrow> items1
                         | Some d \<Rightarrow> filter (\<lambda>it. done' it = d) items1);
               items3 = (case l_search args of
                           None \<Rightarrow> items2
                         | Some s \<Rightarrow>
                             if s = [] then items2
                             else (let term = str_lower w1 s
                                   in filter (\<lambda>it. sublist term (str_lower w1 (title it)))
                                        items2))
           in (Inr 0, print_out (print_table items3) w1)))"

section \<open>Example data\<close>

text \<open>
  A store of two items under the default file name, in a world where no system call
  fails, and the same world with one failing system call.
\<close>

definition item_milk :: TodoItem where
  "item_milk =
     \<lparr>title = ''Buy milk'', category = ''Shopping'', done' = False,
      id' = ''6f1c2a9e-0b54-4d7a-9c3e-5a1d2b3c4d5e'',
      created_at = ''2024-05-01T09:00:00.120000+00:00'',
      updated_at = ''2024-05-01T09:00:00.120000+00:00''\<rparr>"

definition item_report :: TodoItem where
  "item_report =
     \<lparr>title = ''Write report'', category = ''Work'', done' = True,
      id' = ''0d9e8f7a-6b5c-4a3b-8c2d-1e0f9a8b7c6d'',
      created_at = ''2024-05-01T09:05:00.450000+00:00'',
      updated_at = ''2024-05-02T17:30:00.000100+00:00''\<rparr>"

text \<open>
  The examples are ASCII text, on which \<^verbatim>\<open>str.lower\<close> turns the letters A to Z into a to z
  and keeps every other character.
\<close>

definition ascii_lower :: "string \<Rightarrow> string" where
  "ascii_lower s =
     map (\<lambda>c. if 65 \<le> (of_char c :: nat) \<and> (of_char c :: nat) \<le> 90
              then char_of ((of_char c :: nat) + 32) else c) s"

definition demo_clock :: "nat \<Rightarrow> string" where
  "demo_clock n = ''2024-05-03T08:00:00.00000'' @ [''0123456789'' ! (n mod 10)] @ ''+00:00''"

definition demo_uuids :: "nat \<Rightarrow> 128 word" where
  "demo_uuids n = 0x3b241101e2bb4255a8caf25ed2c4f7a0 + of_nat n"

definition demo_world :: world where
  "demo_world =
     \<lparr>files = [DEFAULT_DB \<mapsto> Json (JArr [to_dict item_milk, to_dict item_report])],
      fault = None, torn = ''[{'', tmp_names = [''k3x9q2ab''], environ_TODO_DB = None,
      str_lower = ascii_lower, uuid_src = demo_uuids, uuid_n = 0, clock = demo_clock, ticks = 0,
      stdout = [], stderr = []\<rparr>"

definition replace_fails_world :: world where
  "replace_fails_world = demo_world\<lparr>fault := Some Replace\<rparr>"

text \<open>A store in which two items share an id.\<close>

definition item_twin :: TodoItem where
  "item_twin = item_milk\<lparr>title := ''Buy eggs''\<rparr>"

definition twin_world :: world where
  "twin_world =
     demo_world\<lparr>files := [DEFAULT_DB \<mapsto>
                             Json (JArr (map to_dict [item_milk, item_report, item_twin]))]\<rparr>"

section \<open>What loading and saving change\<close>

text \<open>
  Loading reads the clock and the UUID source only (for fields that a stored item lacks):
  it changes nothing else of the world.
\<close>

lemma new_TodoItem_frame:
  "snd (new_TodoItem t c d i ca ua w) =
     w\<lparr>uuid_n := uuid_n (snd (new_TodoItem t c d i ca ua w)),
       ticks := ticks (snd (new_TodoItem t c d i ca ua w))\<rparr>"
  by (simp add: new_TodoItem_def new_id_def now_iso_def split: option.splits prod.splits)

lemma from_dict_frame:
  "snd (from_dict d w) =
     w\<lparr>uuid_n := uuid_n (snd (from_dict d w)), ticks := ticks (snd (from_dict d w))\<rparr>"
proof (cases d)
  case (JObj kvs)
  then show ?thesis
    using new_TodoItem_frame
      [of _ "get_str kvs ''category''" "get_bool kvs ''done''" "get_str kvs ''id''"
          "get_str kvs ''created_at''" "get_str kvs ''updated_at''" w]
    by (simp split: option.splits json.splits prod.splits) (metis snd_conv)
qed simp_all

lemma from_dicts_frame:
  "snd (from_dicts ds w) =
     w\<lparr>uuid_n := uuid_n (snd (from_dicts ds w)), ticks := ticks (snd (from_dicts ds w))\<rparr>"
proof (induction ds arbitrary: w)
  case Nil
  show ?case by simp
next
  case (Cons d ds)
  obtain r w1 where fd: "from_dict d w = (r, w1)" by (cases "from_dict d w")
  with from_dict_frame [of d w] have w1: "w1 = w\<lparr>uuid_n := uuid_n w1, ticks := ticks w1\<rparr>"
    by simp
  show ?case
  proof (cases r)
    case (Inl e)
    with fd w1 show ?thesis by simp
  next
    case (Inr item)
    obtain rs w2 where fds: "from_dicts ds w1 = (rs, w2)" by (cases "from_dicts ds w1")
    with Cons.IH [of w1] have b: "w2 = w1\<lparr>uuid_n := uuid_n w2, ticks := ticks w2\<rparr>" by simp
    have c: "w1\<lparr>uuid_n := uuid_n w2, ticks := ticks w2\<rparr> =
             w\<lparr>uuid_n := uuid_n w2, ticks := ticks w2\<rparr>"
      using arg_cong [OF w1, of "\<lambda>x. x\<lparr>uuid_n := uuid_n w2, ticks := ticks w2\<rparr>"] by simp
    from b c have "w2 = w\<lparr>uuid_n := uuid_n w2, ticks := ticks w2\<rparr>"
      by (rule trans)
    with fd Inr fds show ?thesis by (cases rs) simp_all
  qed
qed

lemma load_items_frame:
  "snd (load_items path w) =
     w\<lparr>uuid_n := uuid_n (snd (load_items path w)), ticks := ticks (snd (load_items path w))\<rparr>"
  using from_dicts_frame
  by (simp add: load_items_def Let_def split: option.splits sum.splits)

lemma mkstemp_InrE:
  assumes "mkstemp d sfx w = (Inr tmp, w1)"
  obtains ns where "files w tmp = None"
    and "w1 = w\<lparr>files := (files w)(tmp \<mapsto> Unparsable []), tmp_names := ns\<rparr>"
    and "fault w \<noteq> Some Mkstemp"
proof -
  from assms have nf: "fault w \<noteq> Some Mkstemp"
    by (auto simp: mkstemp_def)
  with assms obtain n ns where
    dw: "dropWhile (\<lambda>n. files w (tmp_path d sfx n) \<noteq> None) (tmp_names w) = n # ns"
    and tmp: "tmp = tmp_path d sfx n"
    and w1: "w1 = w\<lparr>files := (files w)(tmp_path d sfx n \<mapsto> Unparsable []), tmp_names := ns\<rparr>"
    by (auto simp: mkstemp_def split: list.splits)
  from dw have "files w (tmp_path d sfx n) = None"
    using hd_dropWhile [of "\<lambda>n. files w (tmp_path d sfx n) \<noteq> None" "tmp_names w"] by simp
  with tmp w1 nf that show thesis by simp
qed

lemma save_items_fails_after_tmp:
  assumes tmp: "mkstemp (parent (path_or_default path w)) ''.tmp'' w = (Inr tmp, w1)"
    and f: "fault w = Some f" "f = Fdopen \<or> f = Write \<or> f = Replace"
  shows "save_items items path w = (Inl (OSError f), w1\<lparr>files := files w\<rparr>)"
proof -
  from tmp obtain ns where fresh: "files w tmp = None"
    and w1: "w1 = w\<lparr>files := (files w)(tmp \<mapsto> Unparsable []), tmp_names := ns\<rparr>"
    by (rule mkstemp_InrE)
  have restore: "((files w)(tmp \<mapsto> c))(tmp := None) = files w" for c
    using fresh by (auto simp: fun_eq_iff)
  have restore': "(files w)(tmp := None) = files w"
    using fresh by (auto simp: fun_eq_iff)
  have md: "mkdir (parent (path_or_default path w)) w = (Inr (), w)"
    using f by (auto simp: mkdir_def)
  have body: "(case dump_to tmp (JArr (map to_dict items)) w1 of
                 (Inl e, w3) \<Rightarrow> (Inl e, w3)
               | (Inr u, w3) \<Rightarrow> os_replace tmp (path_or_default path w) w3) =
              (Inl (OSError f), w1\<lparr>files := (files w)(tmp \<mapsto>
                 (if f = Fdopen then Unparsable [] else if f = Write then Unparsable (torn w)
                  else Json (JArr (map to_dict items))))\<rparr>)"
    using f by (auto simp: w1 dump_to_def os_replace_def)
  show ?thesis
    by (simp add: save_items_def Let_def md tmp body os_path_exists_def os_unlink_def restore restore')
qed


lemma save_items_mkdir_fails:
  assumes "fault w = Some Mkdir"
  shows "save_items items path w = (Inl (OSError Mkdir), w)"
  using assms by (simp add: save_items_def Let_def mkdir_def)

lemma save_items_mkstemp_fails:
  assumes "mkstemp (parent (path_or_default path w)) ''.tmp'' w = (Inl e, w1)"
  shows "fst (save_items items path w) = Inl (if fault w = Some Mkdir then OSError Mkdir else e)"
    and "files (snd (save_items items path w)) = files w"
proof -
  from assms have w1: "files w1 = files w"
    by (auto simp: mkstemp_def split: if_splits list.splits)
  show "fst (save_items items path w) = Inl (if fault w = Some Mkdir then OSError Mkdir else e)"
    using assms by (simp add: save_items_def Let_def mkdir_def)
  show "files (snd (save_items items path w)) = files w"
    using assms w1 by (simp add: save_items_def Let_def mkdir_def)
qed

lemma save_items_succeeds:
  assumes tmp: "mkstemp (parent (path_or_default path w)) ''.tmp'' w = (Inr tmp, w1)"
    and f: "fault w = None \<or> fault w = Some Open"
  shows "save_items items path w =
           (Inr (), w1\<lparr>files := (files w)(path_or_default path w \<mapsto>
                                      Json (JArr (map to_dict items)))\<rparr>)"
proof -
  from tmp obtain ns where fresh: "files w tmp = None"
    and w1: "w1 = w\<lparr>files := (files w)(tmp \<mapsto> Unparsable []), tmp_names := ns\<rparr>"
    by (rule mkstemp_InrE)
  have restore: "((files w)(tmp \<mapsto> c))(tmp := None) = files w" for c
    using fresh by (auto simp: fun_eq_iff)
  have restore': "(files w)(tmp := None) = files w"
    using fresh by (auto simp: fun_eq_iff)
  have md: "mkdir (parent (path_or_default path w)) w = (Inr (), w)"
    using f by (auto simp: mkdir_def)
  have body: "(case dump_to tmp (JArr (map to_dict items)) w1 of
                 (Inl e, w3) \<Rightarrow> (Inl e, w3)
               | (Inr u, w3) \<Rightarrow> os_replace tmp (path_or_default path w) w3) =
              (Inr (), w1\<lparr>files := (files w)(path_or_default path w \<mapsto>
                                      Json (JArr (map to_dict items)))\<rparr>)"
    using f by (auto simp: w1 dump_to_def os_replace_def restore restore')
  show ?thesis
    by (simp add: save_items_def Let_def md tmp body)
qed

lemma save_items_Inr_D:
  assumes "save_items items path w = (Inr u, w')"
  shows "files w' (path_or_default path w) = Some (Json (JArr (map to_dict items)))"
    and "fault w' = fault w" and "environ_TODO_DB w' = environ_TODO_DB w"
    and "fault w = None \<or> fault w = Some Open"
proof -
  obtain r w1 where m: "mkstemp (parent (path_or_default path w)) ''.tmp'' w = (r, w1)"
    by (cases "mkstemp (parent (path_or_default path w)) ''.tmp'' w")
  show f: "fault w = None \<or> fault w = Some Open"
  proof (rule ccontr)
    assume "\<not> ?thesis"
    then obtain f where ff: "fault w = Some f" "f \<noteq> Open" by (cases "fault w") auto
    show False
    proof (cases r)
      case (Inl e)
      with m save_items_mkstemp_fails(1) [of path w e w1 items] assms show False by simp
    next
      case (Inr tmp)
      show False
      proof (cases "f = Mkdir")
        case True
        with ff save_items_mkdir_fails [of w items path] assms show False by simp
      next
        case False
        from m Inr have "fault w \<noteq> Some Mkstemp" by (auto elim: mkstemp_InrE)
        with ff False have "f = Fdopen \<or> f = Write \<or> f = Replace" by (cases f) auto
        with save_items_fails_after_tmp [of path w tmp w1 f items] m Inr ff assms
        show False by simp
      qed
    qed
  qed
  from m assms obtain tmp where r: "r = Inr tmp"
    using save_items_mkstemp_fails(1) [of path w _ w1 items] by (cases r) auto
  from m r obtain ns where
    w1: "w1 = w\<lparr>files := (files w)(tmp \<mapsto> Unparsable []), tmp_names := ns\<rparr>"
    by (auto elim: mkstemp_InrE)
  from save_items_succeeds [of path w tmp w1 items] m r f assms
  have w': "w' = w1\<lparr>files := (files w)(path_or_default path w \<mapsto>
                                      Json (JArr (map to_dict items)))\<rparr>"
    by simp
  show "files w' (path_or_default path w) = Some (Json (JArr (map to_dict items)))"
    by (simp add: w')
  show "fault w' = fault w" "environ_TODO_DB w' = environ_TODO_DB w"
    by (simp_all add: w' w1)
qed

lemma from_dicts_to_dict: "from_dicts (map to_dict items) w = (Inr items, w)"
  by (induction items)
     (simp_all add: to_dict_def field_names_def get_str_def get_bool_def new_TodoItem_def)

section \<open>Facts about the command handlers and the examples\<close>

lemma find_item_None: "find_item items i = None \<longleftrightarrow> i \<notin> id' ` set items"
  by (induction items) auto

lemma find_item_Some:
  "find_item items i = Some k \<Longrightarrow> k < length items \<and> id' (items ! k) = i"
  by (induction items arbitrary: k) (auto split: if_splits)

lemma length_filter_eq_iff:
  "length (filter P xs) = length xs \<longleftrightarrow> (\<forall>x\<in>set xs. P x)"
proof -
  have "length (filter P xs) + length (filter (\<lambda>x. \<not> P x) xs) = length xs"
    by (rule sum_length_filter_compl)
  then have "length (filter P xs) = length xs \<longleftrightarrow> filter (\<lambda>x. \<not> P x) xs = []"
    by auto
  then show ?thesis by (simp add: filter_empty_conv)
qed

lemma load_items_stored:
  assumes "files w (path_or_default path w) = Some (Json (JArr (map to_dict items)))"
    and "fault w \<noteq> Some Open"
  shows "load_items path w = (Inr items, w)"
  using assms by (simp add: load_items_def Let_def json_load_def from_dicts_to_dict)

lemma load_items_files:
  assumes "load_items path w = (r, w1)"
  shows "files w1 = files w" and "fault w1 = fault w"
    and "environ_TODO_DB w1 = environ_TODO_DB w" and "str_lower w1 = str_lower w"
proof -
  from load_items_frame [of path w] assms
  have "w1 = w\<lparr>uuid_n := uuid_n w1, ticks := ticks w1\<rparr>" by simp
  then have "files w1 = files (w\<lparr>uuid_n := uuid_n w1, ticks := ticks w1\<rparr>)"
    "fault w1 = fault (w\<lparr>uuid_n := uuid_n w1, ticks := ticks w1\<rparr>)"
    "environ_TODO_DB w1 = environ_TODO_DB (w\<lparr>uuid_n := uuid_n w1, ticks := ticks w1\<rparr>)"
    "str_lower w1 = str_lower (w\<lparr>uuid_n := uuid_n w1, ticks := ticks w1\<rparr>)"
    by simp_all
  then show "files w1 = files w" and "fault w1 = fault w"
    and "environ_TODO_DB w1 = environ_TODO_DB w" and "str_lower w1 = str_lower w"
    by simp_all
qed

lemma demo_load: "load_items None demo_world = (Inr [item_milk, item_report], demo_world)"
  by (rule load_items_stored)
     (simp_all add: demo_world_def path_or_default_def db_path_def)

lemma twin_load:
  "load_items None twin_world = (Inr [item_milk, item_report, item_twin], twin_world)"
  by (rule load_items_stored)
     (simp_all add: twin_world_def demo_world_def path_or_default_def db_path_def)

section \<open>The text of a UUID\<close>

text \<open>The text has 36 characters and determines the 128-bit value.\<close>

lemma length_hex32: "length (hex32 u) = 32"
  by (simp add: hex32_def)

lemma length_uuid_str: "length (uuid_str u) = 36"
  by (simp add: uuid_str_def Let_def length_hex32)

lemma nibble_less: "nibble u k < 16"
proof -
  have "drop_bit (4 * k) u AND 15 \<le> (15 :: 128 word)"
    by (rule word_and_le1)
  then have "unat (drop_bit (4 * k) u AND 15) \<le> unat (15 :: 128 word)"
    by (simp add: word_le_nat_alt)
  then show ?thesis by (simp add: nibble_def)
qed

lemma hex_digit_inj: "i < 16 \<Longrightarrow> j < 16 \<Longrightarrow> hex_digit i = hex_digit j \<Longrightarrow> i = j"
  unfolding hex_digit_def
  by (subst (asm) nth_eq_iff_index_eq) simp_all

lemma nibbles_eq:
  assumes "\<And>k. k < 32 \<Longrightarrow> nibble u k = nibble v k"
  shows "u = v"
proof (rule bit_word_eqI)
  fix n
  assume n: "n < LENGTH(128)"
  let ?k = "n div 4" and ?m = "n mod 4"
  from n have k: "?k < 32" by simp
  have "bit (mask 4 :: 128 word) ?m"
    by (simp add: bit_mask_iff)
  moreover have "(mask 4 :: 128 word) = 15"
    by (simp add: mask_eq_exp_minus_1)
  ultimately have m: "bit (15 :: 128 word) ?m"
    by (simp only:)
  from assms [OF k] have "drop_bit (4 * ?k) u AND 15 = drop_bit (4 * ?k) v AND 15"
    by (simp add: nibble_def word_unat_eq_iff)
  then have "bit (drop_bit (4 * ?k) u AND 15) ?m = bit (drop_bit (4 * ?k) v AND 15) ?m"
    by simp
  with m have "bit u (4 * ?k + ?m) = bit v (4 * ?k + ?m)"
    by (simp add: bit_and_iff bit_drop_bit_eq)
  then show "bit u n = bit v n" by simp
qed

lemma hex32_nth:
  assumes "k < 32" shows "hex32 u ! (31 - k) = hex_digit (nibble u k)"
proof -
  have l: "31 - k < length [0..<32]" by simp
  have i: "[0..<32] ! (31 - k) = 31 - k"
    using nth_upt [of 0 "31 - k" 32] by simp
  have "hex32 u ! (31 - k) = hex_digit (nibble u (31 - [0..<32] ! (31 - k)))"
    unfolding hex32_def by (simp only: nth_map [OF l])
  also have "\<dots> = hex_digit (nibble u (31 - (31 - k)))"
    by (simp only: i)
  also from assms have "31 - (31 - k) = k" by simp
  finally show ?thesis .
qed

lemma hex32_inj:
  assumes "hex32 u = hex32 v" shows "u = v"
proof (rule nibbles_eq)
  fix k :: nat assume k: "k < 32"
  from assms have "hex32 u ! (31 - k) = hex32 v ! (31 - k)" by simp
  then have "hex_digit (nibble u k) = hex_digit (nibble v k)"
    by (simp only: hex32_nth [OF k])
  then show "nibble u k = nibble v k"
    by (rule hex_digit_inj [OF nibble_less nibble_less])
qed

lemma regroup:
  "take 8 xs @ take 4 (drop 8 xs) @ take 4 (drop 12 xs) @ take 4 (drop 16 xs) @ drop 20 xs = xs"
proof -
  have a: "take 4 (drop 16 xs) @ drop 20 xs = drop 16 xs"
    using append_take_drop_id [of 4 "drop 16 xs"] by simp
  have b: "take 4 (drop 12 xs) @ drop 16 xs = drop 12 xs"
    using append_take_drop_id [of 4 "drop 12 xs"] by simp
  have c: "take 4 (drop 8 xs) @ drop 12 xs = drop 8 xs"
    using append_take_drop_id [of 4 "drop 8 xs"] by simp
  show ?thesis by (simp only: a b c append_take_drop_id)
qed

lemma uuid_str_inj:
  assumes "uuid_str u = uuid_str v" shows "u = v"
proof -
  let ?h = "hex32 u" and ?g = "hex32 v"
  from assms have e: "take 8 ?h = take 8 ?g" "take 4 (drop 8 ?h) = take 4 (drop 8 ?g)"
      "take 4 (drop 12 ?h) = take 4 (drop 12 ?g)" "take 4 (drop 16 ?h) = take 4 (drop 16 ?g)"
      "drop 20 ?h = drop 20 ?g"
    by (simp_all add: uuid_str_def Let_def length_hex32)
  have "?h = take 8 ?h @ take 4 (drop 8 ?h) @ take 4 (drop 12 ?h) @ take 4 (drop 16 ?h) @
               drop 20 ?h"
    by (rule regroup [symmetric])
  also have "\<dots> = take 8 ?g @ take 4 (drop 8 ?g) @ take 4 (drop 12 ?g) @
                     take 4 (drop 16 ?g) @ drop 20 ?g"
    by (simp only: e)
  also have "\<dots> = ?g"
    by (rule regroup)
  finally show ?thesis by (rule hex32_inj)
qed

lemma demo_uuid0: "uuid_str (demo_uuids 0) = ''3b241101-e2bb-4255-a8ca-f25ed2c4f7a0''"
  by code_simp

lemma demo_uuid1: "uuid_str (demo_uuids 1) = ''3b241101-e2bb-4255-a8ca-f25ed2c4f7a1''"
  by code_simp

lemma demo_clock01:
  "demo_clock 0 = ''2024-05-03T08:00:00.000000+00:00''"
  "demo_clock 1 = ''2024-05-03T08:00:00.000001+00:00''"
  by (simp_all add: demo_clock_def)

lemma demo_Suc0:
  "demo_clock (Suc 0) = ''2024-05-03T08:00:00.000001+00:00''"
  "uuid_str (demo_uuids (Suc 0)) = ''3b241101-e2bb-4255-a8ca-f25ed2c4f7a1''"
  using demo_clock01(2) demo_uuid1 by simp_all

section \<open>Looking up a field of a well-typed mapping\<close>

lemma well_typed_lookup:
  assumes "list_all well_typed_entry kvs" and "map_of kvs k = Some v"
  shows "well_typed_entry (k, v)"
  using assms by (auto simp: list_all_iff dest: map_of_SomeD)

lemma get_str_well_typed:
  assumes "list_all well_typed_entry kvs" and "k \<noteq> ''done''"
  shows "case map_of kvs k of
           None \<Rightarrow> get_str kvs k = None
         | Some v \<Rightarrow> \<exists>s. v = JStr s \<and> get_str kvs k = Some s"
proof (cases "map_of kvs k")
  case None
  then show ?thesis by (simp add: get_str_def)
next
  case (Some v)
  with well_typed_lookup [OF assms(1) Some] assms(2) show ?thesis
    by (cases v) (simp_all add: get_str_def)
qed

lemma get_bool_well_typed:
  assumes "list_all well_typed_entry kvs"
  shows "case map_of kvs ''done'' of
           None \<Rightarrow> get_bool kvs ''done'' = None
         | Some v \<Rightarrow> \<exists>b. v = JBool b \<and> get_bool kvs ''done'' = Some b"
proof (cases "map_of kvs ''done''")
  case None
  then show ?thesis by (simp add: get_bool_def)
next
  case (Some v)
  with well_typed_lookup [OF assms(1) Some] show ?thesis
    by (cases v) (simp_all add: get_bool_def)
qed

section \<open>The claims\<close>

text \<open>
  C1. For every list of items and every target path: when \<^verbatim>\<open>mkstemp\<close> has created the
  temporary file \<open>tmp\<close> and a later step of \<^verbatim>\<open>save_items\<close> fails (\<^verbatim>\<open>fdopen\<close>, the write of
  the document, or \<^verbatim>\<open>os.replace\<close>), \<^verbatim>\<open>save_items\<close> raises the error of that step, and the
  world it leaves is the one \<^verbatim>\<open>mkstemp\<close> left with the files as they were before the call:
  \<open>tmp\<close>, which did not exist before and which \<^verbatim>\<open>mkstemp\<close> created, does not exist, and
  every file, the target among them, has the contents it had. The calls of the handler
  itself (\<^verbatim>\<open>os.path.exists\<close>, \<^verbatim>\<open>os.unlink\<close>) are taken to succeed.
\<close>

theorem save_items_failure_atomic:
  assumes "mkstemp (parent (path_or_default path w)) ''.tmp'' w = (Inr tmp, w1)"
    and "fault w = Some f" and "f = Fdopen \<or> f = Write \<or> f = Replace"
  shows "save_items items path w = (Inl (OSError f), w1\<lparr>files := files w\<rparr>) \<and>
         files w tmp = None \<and> files w1 tmp = Some (Unparsable []) \<and>
         files (snd (save_items items path w)) tmp = None \<and>
         files (snd (save_items items path w)) = files w"
proof -
  from assms(1) obtain ns where fresh: "files w tmp = None"
    and w1: "w1 = w\<lparr>files := (files w)(tmp \<mapsto> Unparsable []), tmp_names := ns\<rparr>"
    by (rule mkstemp_InrE)
  have s: "save_items items path w = (Inl (OSError f), w1\<lparr>files := files w\<rparr>)"
    using assms by (rule save_items_fails_after_tmp)
  have c: "files w1 tmp = Some (Unparsable [])"
    by (simp add: w1)
  from s fresh c show ?thesis by simp
qed

text \<open>
  In the example \<^verbatim>\<open>os.replace\<close> fails: the document was written to the temporary file
  in full, the file is removed again, and the store still holds its two items.
\<close>

theorem save_items_failure_atomic_witness:
  "mkstemp (parent (path_or_default None replace_fails_world)) ''.tmp'' replace_fails_world =
     (Inr [''tmpk3x9q2ab.tmp''],
      replace_fails_world\<lparr>files := (files replace_fails_world)
                              ([''tmpk3x9q2ab.tmp''] \<mapsto> Unparsable []), tmp_names := []\<rparr>) \<and>
   fault replace_fails_world = Some Replace \<and>
   save_items [item_report] None replace_fails_world =
     (Inl (OSError Replace), replace_fails_world\<lparr>tmp_names := []\<rparr>) \<and>
   files (snd (save_items [item_report] None replace_fails_world)) [''tmpk3x9q2ab.tmp''] =
     None \<and>
   files (snd (save_items [item_report] None replace_fails_world)) DEFAULT_DB =
     Some (Json (JArr [to_dict item_milk, to_dict item_report]))"
proof -
  have p: "parent (path_or_default None replace_fails_world) = []"
    by (simp add: path_or_default_def db_path_def replace_fails_world_def demo_world_def
          DEFAULT_DB_def parent_def)
  have m: "mkstemp (parent (path_or_default None replace_fails_world)) ''.tmp''
             replace_fails_world =
     (Inr [''tmpk3x9q2ab.tmp''],
      replace_fails_world\<lparr>files := (files replace_fails_world)
                              ([''tmpk3x9q2ab.tmp''] \<mapsto> Unparsable []), tmp_names := []\<rparr>)"
    unfolding p
    by (simp add: mkstemp_def tmp_path_def replace_fails_world_def demo_world_def
          DEFAULT_DB_def)
  have f: "fault replace_fails_world = Some Replace"
    by (simp add: replace_fails_world_def)
  have r: "Replace = Fdopen \<or> Replace = Write \<or> Replace = Replace"
    by simp
  have d: "files replace_fails_world DEFAULT_DB =
             Some (Json (JArr [to_dict item_milk, to_dict item_report]))"
    by (simp add: replace_fails_world_def demo_world_def)
  note t = save_items_failure_atomic [OF m f r, of "[item_report]"]
  from t have s: "save_items [item_report] None replace_fails_world =
     (Inl (OSError Replace), replace_fails_world\<lparr>tmp_names := []\<rparr>)"
    by (simp add: replace_fails_world_def)
  from t have a: "files (snd (save_items [item_report] None replace_fails_world))
                    [''tmpk3x9q2ab.tmp''] = None"
    by (rule conjunct2 [THEN conjunct2, THEN conjunct2, THEN conjunct1])
  from t have "files (snd (save_items [item_report] None replace_fails_world)) =
               files replace_fails_world"
    by (rule conjunct2 [THEN conjunct2, THEN conjunct2, THEN conjunct2])
  with d have b: "files (snd (save_items [item_report] None replace_fails_world)) DEFAULT_DB =
     Some (Json (JArr [to_dict item_milk, to_dict item_report]))"
    by (simp only:)
  from m f s a b show ?thesis
    by (simp only: simp_thms)
qed

text \<open>
  C2. For every collection and every path: when \<^verbatim>\<open>save_items\<close> has returned normally,
  \<^verbatim>\<open>load_items\<close> of the same path in the world it leaves returns the collection that was
  saved, every field of every item and the order of the items as they were (the read
  itself not failing), and changes nothing.
\<close>

theorem save_then_load:
  assumes "save_items items path w = (Inr u, w')" and "fault w \<noteq> Some Open"
  shows "load_items path w' = (Inr items, w')"
proof -
  note s = save_items_Inr_D [OF assms(1)]
  have p: "path_or_default path w' = path_or_default path w"
    by (simp add: path_or_default_def db_path_def s(3) split: option.splits)
  from s(2) assms(2) have "fault w' \<noteq> Some Open" by simp
  then show ?thesis
    by (simp add: load_items_def Let_def p s(1) json_load_def from_dicts_to_dict)
qed

text \<open>Saving two items over the example store, then loading them.\<close>

theorem save_then_load_witness:
  "save_items [item_report, item_milk] None demo_world =
     (Inr (), demo_world\<lparr>files := (files demo_world)
                (DEFAULT_DB \<mapsto> Json (JArr (map to_dict [item_report, item_milk]))),
              tmp_names := []\<rparr>) \<and>
   fault demo_world \<noteq> Some Open \<and>
   load_items None (demo_world\<lparr>files := (files demo_world)
                (DEFAULT_DB \<mapsto> Json (JArr (map to_dict [item_report, item_milk]))),
              tmp_names := []\<rparr>) =
     (Inr [item_report, item_milk],
      demo_world\<lparr>files := (files demo_world)
                (DEFAULT_DB \<mapsto> Json (JArr (map to_dict [item_report, item_milk]))),
              tmp_names := []\<rparr>)"
proof -
  have p: "path_or_default None demo_world = DEFAULT_DB"
    by (simp add: path_or_default_def db_path_def demo_world_def)
  have m: "mkstemp (parent (path_or_default None demo_world)) ''.tmp'' demo_world =
     (Inr [''tmpk3x9q2ab.tmp''],
      demo_world\<lparr>files := (files demo_world)([''tmpk3x9q2ab.tmp''] \<mapsto> Unparsable []),
                 tmp_names := []\<rparr>)"
    unfolding p
    by (simp add: mkstemp_def tmp_path_def demo_world_def DEFAULT_DB_def parent_def)
  have f: "fault demo_world \<noteq> Some Open"
    by (simp add: demo_world_def)
  have s: "save_items [item_report, item_milk] None demo_world =
     (Inr (), demo_world\<lparr>files := (files demo_world)
                (DEFAULT_DB \<mapsto> Json (JArr (map to_dict [item_report, item_milk]))),
              tmp_names := []\<rparr>)"
    using save_items_succeeds [OF m, of "[item_report, item_milk]"]
    by (simp add: p) (simp add: demo_world_def)
  from save_then_load [OF s f] s f show ?thesis by simp
qed

text \<open>
  C3. For every item, \<^verbatim>\<open>from_dict\<close> of its \<^verbatim>\<open>to_dict\<close> returns the item itself, all six
  fields as they were, and reads neither the clock nor the UUID source.
\<close>

theorem to_dict_from_dict_roundtrip:
  "from_dict (to_dict item) w = (Inr item, w)"
  by (simp add: to_dict_def field_names_def get_str_def get_bool_def new_TodoItem_def)

theorem to_dict_from_dict_roundtrip_witness:
  "from_dict
     (JObj [(''title'', JStr ''Write report''), (''category'', JStr ''Work''),
            (''done'', JBool True), (''id'', JStr ''0d9e8f7a-6b5c-4a3b-8c2d-1e0f9a8b7c6d''),
            (''created_at'', JStr ''2024-05-01T09:05:00.450000+00:00''),
            (''updated_at'', JStr ''2024-05-02T17:30:00.000100+00:00'')]) demo_world =
     (Inr item_report, demo_world) \<and>
   to_dict item_report =
     JObj [(''title'', JStr ''Write report''), (''category'', JStr ''Work''),
           (''done'', JBool True), (''id'', JStr ''0d9e8f7a-6b5c-4a3b-8c2d-1e0f9a8b7c6d''),
           (''created_at'', JStr ''2024-05-01T09:05:00.450000+00:00''),
           (''updated_at'', JStr ''2024-05-02T17:30:00.000100+00:00'')]"
proof -
  have d: "to_dict item_report =
     JObj [(''title'', JStr ''Write report''), (''category'', JStr ''Work''),
           (''done'', JBool True), (''id'', JStr ''0d9e8f7a-6b5c-4a3b-8c2d-1e0f9a8b7c6d''),
           (''created_at'', JStr ''2024-05-01T09:05:00.450000+00:00''),
           (''updated_at'', JStr ''2024-05-02T17:30:00.000100+00:00'')]"
    by (simp add: to_dict_def item_report_def)
  from to_dict_from_dict_roundtrip [of item_report demo_world] d show ?thesis by simp
qed

text \<open>
  C9. For every path that names no file, \<^verbatim>\<open>load_items\<close> returns the empty list, raises
  nothing and changes nothing. The path is the one given, or the default path when none
  is given.
\<close>

theorem load_items_missing_file:
  assumes "files w (path_or_default path w) = None"
  shows "load_items path w = (Inr [], w)"
  using assms by (simp add: load_items_def Let_def)

theorem load_items_missing_file_witness:
  "files demo_world (path_or_default (Some [''data'', ''none.json'']) demo_world) = None \<and>
   load_items (Some [''data'', ''none.json'']) demo_world = (Inr [], demo_world)"
proof -
  have a: "files demo_world (path_or_default (Some [''data'', ''none.json'']) demo_world) = None"
    by (simp add: path_or_default_def demo_world_def DEFAULT_DB_def)
  from load_items_missing_file [OF a] a show ?thesis by simp
qed

text \<open>
  C6. The claim as the specification states it, every category string given selecting
  exactly the items of that category, fails for the empty string: \<^verbatim>\<open>if args.category:\<close>
  is false for it and the category filter is skipped. In the example store no item has
  the empty category, yet \<^verbatim>\<open>list --category ""\<close> prints both items and not
  \<^verbatim>\<open>No items found.\<close>
\<close>

theorem cmd_list_empty_category_counterexample:
  "cmd_list \<lparr>l_category = Some '''', l_done = None, l_search = None\<rparr> None demo_world =
     (Inr 0,
      demo_world\<lparr>stdout :=
        [''ID        Title         Category  Done  Created              Updated            '',
         ''--------  ------------  --------  ----  -------------------  -------------------'',
         ''6f1c2a9e  Buy milk      Shopping  No    2024-05-01T09:00:00  2024-05-01T09:00:00'',
         ''0d9e8f7a  Write report  Work      Yes   2024-05-01T09:05:00  2024-05-02T17:30:00'']\<rparr>) \<and>
   load_items None demo_world = (Inr [item_milk, item_report], demo_world) \<and>
   category item_milk = ''Shopping'' \<and> category item_report = ''Work'' \<and>
   str_lower demo_world (category item_milk) \<noteq> str_lower demo_world '''' \<and>
   str_lower demo_world (category item_report) \<noteq> str_lower demo_world '''' \<and>
   print_table [] = [''No items found.'']"
proof -
  have t: "print_table [item_milk, item_report] =
        [''ID        Title         Category  Done  Created              Updated            '',
         ''--------  ------------  --------  ----  -------------------  -------------------'',
         ''6f1c2a9e  Buy milk      Shopping  No    2024-05-01T09:00:00  2024-05-01T09:00:00'',
         ''0d9e8f7a  Write report  Work      Yes   2024-05-01T09:05:00  2024-05-02T17:30:00'']"
    by code_simp
  have e: "stdout demo_world = []" by (simp add: demo_world_def)
  have c: "cmd_list \<lparr>l_category = Some '''', l_done = None, l_search = None\<rparr> None demo_world =
             (Inr 0, print_out (print_table [item_milk, item_report]) demo_world)"
    by (simp add: cmd_list_def demo_load)
  have k: "category item_milk = ''Shopping''" "category item_report = ''Work''"
    by (simp_all add: item_milk_def item_report_def)
  have l: "str_lower demo_world (category item_milk) \<noteq> str_lower demo_world ''''"
    "str_lower demo_world (category item_report) \<noteq> str_lower demo_world ''''"
    by (simp_all add: demo_world_def ascii_lower_def k)
  have n: "print_table [] = [''No items found.'']"
    by (simp add: print_table_def)
  have c': "cmd_list \<lparr>l_category = Some '''', l_done = None, l_search = None\<rparr> None demo_world =
     (Inr 0,
      demo_world\<lparr>stdout :=
        [''ID        Title         Category  Done  Created              Updated            '',
         ''--------  ------------  --------  ----  -------------------  -------------------'',
         ''6f1c2a9e  Buy milk      Shopping  No    2024-05-01T09:00:00  2024-05-01T09:00:00'',
         ''0d9e8f7a  Write report  Work      Yes   2024-05-01T09:05:00  2024-05-02T17:30:00'']\<rparr>)"
    by (simp only: c t print_out_def e append_Nil)
  from c' demo_load k l n show ?thesis
    by (simp only: simp_thms)
qed

text \<open>
  C6, amended. For every stored collection of records and every combination of filters
  in which the category, when given, is not the empty string: \<^verbatim>\<open>list\<close> prints the table
  of exactly the items that pass every given filter, in their stored order (the
  \<^verbatim>\<open>str.lower\<close> of the item's category equal to that of the category given; \<^verbatim>\<open>done\<close> equal
  to the value given; the \<^verbatim>\<open>str.lower\<close> of the search text occurring in that of the
  title, an empty search text passing every item); it returns 0 and leaves every file as
  it was.
\<close>

theorem cmd_list_filters:
  assumes "load_items db w = (Inr items, w1)" and "l_category args \<noteq> Some []"
  shows "cmd_list args db w =
           (Inr 0,
            print_out
              (print_table
                 (filter (\<lambda>it. (case l_category args of
                                    None \<Rightarrow> True
                                  | Some c \<Rightarrow> str_lower w (category it) = str_lower w c) \<and>
                                 (case l_done args of
                                    None \<Rightarrow> True
                                  | Some d \<Rightarrow> done' it = d) \<and>
                                 (case l_search args of
                                    None \<Rightarrow> True
                                  | Some s \<Rightarrow>
                                      s = [] \<or>
                                      sublist (str_lower w s) (str_lower w (title it))))
                    items)) w1) \<and>
         files (snd (cmd_list args db w)) = files w"
proof -
  note l = load_items_files [OF assms(1)]
  have "cmd_list args db w =
           (Inr 0,
            print_out
              (print_table
                 (filter (\<lambda>it. (case l_category args of
                                    None \<Rightarrow> True
                                  | Some c \<Rightarrow> str_lower w (category it) = str_lower w c) \<and>
                                 (case l_done args of
                                    None \<Rightarrow> True
                                  | Some d \<Rightarrow> done' it = d) \<and>
                                 (case l_search args of
                                    None \<Rightarrow> True
                                  | Some s \<Rightarrow>
                                      s = [] \<or>
                                      sublist (str_lower w s) (str_lower w (title it))))
                    items)) w1)"
    using assms
    by (cases "l_category args"; cases "l_done args"; cases "l_search args")
       (auto simp: cmd_list_def Let_def l(4))
  with l(1) show ?thesis
    by (simp add: print_out_def)
qed

theorem cmd_list_filters_witness:
  "load_items None demo_world = (Inr [item_milk, item_report], demo_world) \<and>
   cmd_list \<lparr>l_category = Some ''work'', l_done = Some True, l_search = Some ''REP''\<rparr>
       None demo_world =
     (Inr 0,
      demo_world\<lparr>stdout :=
        [''ID        Title         Category  Done  Created              Updated            '',
         ''--------  ------------  --------  ----  -------------------  -------------------'',
         ''0d9e8f7a  Write report  Work      Yes   2024-05-01T09:05:00  2024-05-02T17:30:00'']\<rparr>)"
proof -
  let ?a = "\<lparr>l_category = Some ''work'', l_done = Some True, l_search = Some ''REP''\<rparr>"
  have c: "l_category ?a \<noteq> Some []" by simp
  have f: "filter (\<lambda>it. ascii_lower (category it) = ascii_lower ''work'' \<and> done' it \<and>
                        sublist (ascii_lower ''REP'') (ascii_lower (title it)))
             [item_milk, item_report] = [item_report]"
    by code_simp
  have t: "print_table [item_report] =
        [''ID        Title         Category  Done  Created              Updated            '',
         ''--------  ------------  --------  ----  -------------------  -------------------'',
         ''0d9e8f7a  Write report  Work      Yes   2024-05-01T09:05:00  2024-05-02T17:30:00'']"
    by code_simp
  have e: "stdout demo_world = []" "str_lower demo_world = ascii_lower"
    by (simp_all add: demo_world_def)
  from cmd_list_filters [OF demo_load c] demo_load show ?thesis
    by (simp del: filter.simps add: e f t print_out_def)
qed

text \<open>
  C7. For every stored collection and every id that no item of it has, \<^verbatim>\<open>update\<close> and
  \<^verbatim>\<open>delete\<close> each return 1, write the not-found line to the error stream and do nothing
  else: no save, every file as it was.
\<close>

theorem not_found_leaves_store:
  assumes "load_items db w = (Inr items, w1)"
    and "u_id uargs \<notin> id' ` set items" and "d_id dargs \<notin> id' ` set items"
  shows "cmd_update uargs db w = (Inr 1, print_err (Not_found (u_id uargs)) w1) \<and>
         cmd_delete dargs db w = (Inr 1, print_err (Not_found (d_id dargs)) w1) \<and>
         files (print_err (Not_found (u_id uargs)) w1) = files w \<and>
         files (print_err (Not_found (d_id dargs)) w1) = files w"
proof -
  from assms(2) have "find_item items (u_id uargs) = None"
    by (simp add: find_item_None)
  with assms(1) have u: "cmd_update uargs db w = (Inr 1, print_err (Not_found (u_id uargs)) w1)"
    by (simp add: cmd_update_def)
  from assms(3) have "length (filter (\<lambda>it. id' it \<noteq> d_id dargs) items) = length items"
    by (subst length_filter_eq_iff) force
  with assms(1) have d: "cmd_delete dargs db w = (Inr 1, print_err (Not_found (d_id dargs)) w1)"
    by (simp add: cmd_delete_def Let_def)
  from load_items_files(1) [OF assms(1)] u d show ?thesis
    by (simp add: print_err_def)
qed

theorem not_found_leaves_store_witness:
  "load_items None demo_world = (Inr [item_milk, item_report], demo_world) \<and>
   cmd_update \<lparr>u_id = ''nonexistent-id'', u_title = Some ''X'', u_category = None,
               u_done = None\<rparr> None demo_world =
     (Inr 1, demo_world\<lparr>stderr := [Not_found ''nonexistent-id'']\<rparr>) \<and>
   cmd_delete \<lparr>d_id = ''bad-id''\<rparr> None demo_world =
     (Inr 1, demo_world\<lparr>stderr := [Not_found ''bad-id'']\<rparr>) \<and>
   files (demo_world\<lparr>stderr := [Not_found ''bad-id'']\<rparr>) = files demo_world"
proof -
  have u: "u_id \<lparr>u_id = ''nonexistent-id'', u_title = Some ''X'', u_category = None,
               u_done = None\<rparr> \<notin> id' ` set [item_milk, item_report]"
    by (simp add: item_milk_def item_report_def)
  have d: "d_id \<lparr>d_id = ''bad-id''\<rparr> \<notin> id' ` set [item_milk, item_report]"
    by (simp add: item_milk_def item_report_def)
  have e: "stderr demo_world = []" by (simp add: demo_world_def)
  from not_found_leaves_store [OF demo_load u d] demo_load show ?thesis
    by (simp add: print_err_def e)
qed

text \<open>
  C8. For every stored collection and every id that an item of it has, \<^verbatim>\<open>update\<close> with
  neither a title nor a category nor a \<^verbatim>\<open>done\<close> value returns 0, prints
  \<^verbatim>\<open>Nothing to update.\<close> and does nothing else: no \<^verbatim>\<open>touch\<close> (the clock is not read), no
  save, every file as it was, so every stored item keeps all its fields, \<^verbatim>\<open>updated_at\<close>
  among them.
\<close>

theorem update_without_fields_is_noop:
  assumes "load_items db w = (Inr items, w1)"
    and "u_id args \<in> id' ` set items"
    and "u_title args = None" and "u_category args = None" and "u_done args = None"
  shows "cmd_update args db w = (Inr 0, print_out [''Nothing to update.''] w1) \<and>
         files (print_out [''Nothing to update.''] w1) = files w"
proof -
  from assms(2) obtain k where "find_item items (u_id args) = Some k"
    using find_item_None [of items "u_id args"] by (cases "find_item items (u_id args)") auto
  with assms(1,3,4,5)
  have "cmd_update args db w = (Inr 0, print_out [''Nothing to update.''] w1)"
    by (simp add: cmd_update_def Let_def)
  with load_items_files(1) [OF assms(1)] show ?thesis
    by (simp add: print_out_def)
qed

theorem update_without_fields_is_noop_witness:
  "load_items None demo_world = (Inr [item_milk, item_report], demo_world) \<and>
   cmd_update \<lparr>u_id = ''0d9e8f7a-6b5c-4a3b-8c2d-1e0f9a8b7c6d'', u_title = None,
               u_category = None, u_done = None\<rparr> None demo_world =
     (Inr 0, demo_world\<lparr>stdout := [''Nothing to update.'']\<rparr>) \<and>
   files (demo_world\<lparr>stdout := [''Nothing to update.'']\<rparr>) = files demo_world"
proof -
  let ?a = "\<lparr>u_id = ''0d9e8f7a-6b5c-4a3b-8c2d-1e0f9a8b7c6d'', u_title = None,
               u_category = None, u_done = None\<rparr>"
  have m: "u_id ?a \<in> id' ` set [item_milk, item_report]"
    by (simp add: item_report_def)
  have e: "stdout demo_world = []" by (simp add: demo_world_def)
  from update_without_fields_is_noop [OF demo_load m] demo_load show ?thesis
    by (simp add: print_out_def e)
qed

text \<open>
  C10. For every stored collection and every id: \<^verbatim>\<open>delete\<close> saves exactly when some item
  has the id, and what it saves is the collection without every item of that id, the
  other items unchanged and in their order; when no item has the id it returns 1 without
  saving. When \<^verbatim>\<open>delete\<close> returns 0, the file holds that remaining collection and loading
  it returns it.
\<close>

theorem cmd_delete_removes_all:
  assumes "load_items db w = (Inr items, w1)"
  shows "cmd_delete args db w =
           (if d_id args \<in> id' ` set items
            then (case save_items (filter (\<lambda>it. id' it \<noteq> d_id args) items) db w1 of
                    (Inl e, w2) \<Rightarrow> (Inl e, w2)
                  | (Inr u, w2) \<Rightarrow> (Inr 0, print_out [''Deleted: '' @ d_id args] w2))
            else (Inr 1, print_err (Not_found (d_id args)) w1)) \<and>
         (cmd_delete args db w = (Inr 0, w') \<longrightarrow>
            d_id args \<in> id' ` set items \<and>
            files w' (path_or_default db w) =
              Some (Json (JArr (map to_dict (filter (\<lambda>it. id' it \<noteq> d_id args) items)))) \<and>
            (fault w \<noteq> Some Open \<longrightarrow>
               load_items db w' = (Inr (filter (\<lambda>it. id' it \<noteq> d_id args) items), w')))"
proof -
  let ?keep = "filter (\<lambda>it. id' it \<noteq> d_id args) items"
  have len: "length ?keep = length items \<longleftrightarrow> d_id args \<notin> id' ` set items"
    by (subst length_filter_eq_iff) force
  have eq: "cmd_delete args db w =
           (if d_id args \<in> id' ` set items
            then (case save_items ?keep db w1 of
                    (Inl e, w2) \<Rightarrow> (Inl e, w2)
                  | (Inr u, w2) \<Rightarrow> (Inr 0, print_out [''Deleted: '' @ d_id args] w2))
            else (Inr 1, print_err (Not_found (d_id args)) w1))"
    using assms len by (simp add: cmd_delete_def Let_def)
  note l = load_items_files [OF assms]
  have p1: "path_or_default db w1 = path_or_default db w"
    by (simp add: path_or_default_def db_path_def l(3) split: option.splits)
  have post: "d_id args \<in> id' ` set items \<and>
            files w' (path_or_default db w) = Some (Json (JArr (map to_dict ?keep))) \<and>
            (fault w \<noteq> Some Open \<longrightarrow> load_items db w' = (Inr ?keep, w'))"
    if ok: "cmd_delete args db w = (Inr 0, w')"
  proof -
    from ok eq have mem: "d_id args \<in> id' ` set items"
      by (auto split: if_splits)
    with ok eq obtain u w2 where s: "save_items ?keep db w1 = (Inr u, w2)"
      and w': "w' = print_out [''Deleted: '' @ d_id args] w2"
      by (auto split: prod.splits sum.splits)
    note d = save_items_Inr_D [OF s]
    have f: "files w' (path_or_default db w) = Some (Json (JArr (map to_dict ?keep)))"
      using d(1) by (simp add: w' print_out_def p1)
    have p': "path_or_default db w' = path_or_default db w"
      by (simp add: path_or_default_def db_path_def w' print_out_def d(3) l(3)
            split: option.splits)
    have "load_items db w' = (Inr ?keep, w')" if "fault w \<noteq> Some Open"
    proof (rule load_items_stored)
      show "files w' (path_or_default db w') = Some (Json (JArr (map to_dict ?keep)))"
        using f by (simp add: p')
      show "fault w' \<noteq> Some Open"
        using that by (simp add: w' print_out_def d(2) l(2))
    qed
    with mem f show ?thesis by simp
  qed
  from eq post show ?thesis by blast
qed

text \<open>Deleting the id that two of three items share leaves the third.\<close>

theorem cmd_delete_removes_all_witness:
  "load_items None twin_world = (Inr [item_milk, item_report, item_twin], twin_world) \<and>
   id' item_twin = id' item_milk \<and>
   cmd_delete \<lparr>d_id = ''6f1c2a9e-0b54-4d7a-9c3e-5a1d2b3c4d5e''\<rparr> None twin_world =
     (Inr 0,
      twin_world\<lparr>files := [DEFAULT_DB \<mapsto> Json (JArr [to_dict item_report])],
                 tmp_names := [],
                 stdout := [''Deleted: 6f1c2a9e-0b54-4d7a-9c3e-5a1d2b3c4d5e'']\<rparr>) \<and>
   load_items None
      (twin_world\<lparr>files := [DEFAULT_DB \<mapsto> Json (JArr [to_dict item_report])],
                 tmp_names := [],
                 stdout := [''Deleted: 6f1c2a9e-0b54-4d7a-9c3e-5a1d2b3c4d5e'']\<rparr>) =
     (Inr [item_report],
      twin_world\<lparr>files := [DEFAULT_DB \<mapsto> Json (JArr [to_dict item_report])],
                 tmp_names := [],
                 stdout := [''Deleted: 6f1c2a9e-0b54-4d7a-9c3e-5a1d2b3c4d5e'']\<rparr>)"
proof -
  let ?a = "\<lparr>d_id = ''6f1c2a9e-0b54-4d7a-9c3e-5a1d2b3c4d5e''\<rparr>"
  let ?w = "twin_world\<lparr>files := [DEFAULT_DB \<mapsto> Json (JArr [to_dict item_report])],
                 tmp_names := [],
                 stdout := [''Deleted: 6f1c2a9e-0b54-4d7a-9c3e-5a1d2b3c4d5e'']\<rparr>"
  have k: "filter (\<lambda>it. id' it \<noteq> ''6f1c2a9e-0b54-4d7a-9c3e-5a1d2b3c4d5e'')
             [item_milk, item_report, item_twin] = [item_report]"
    by (simp add: item_milk_def item_report_def item_twin_def)
  have mem: "d_id ?a \<in> id' ` set [item_milk, item_report, item_twin]"
    by (simp add: item_milk_def)
  have p: "path_or_default None twin_world = DEFAULT_DB"
    by (simp add: path_or_default_def db_path_def twin_world_def demo_world_def)
  have m: "mkstemp (parent (path_or_default None twin_world)) ''.tmp'' twin_world =
     (Inr [''tmpk3x9q2ab.tmp''],
      twin_world\<lparr>files := (files twin_world)([''tmpk3x9q2ab.tmp''] \<mapsto> Unparsable []),
                 tmp_names := []\<rparr>)"
    unfolding p
    by (simp add: mkstemp_def tmp_path_def twin_world_def demo_world_def DEFAULT_DB_def
          parent_def)
  have s: "save_items [item_report] None twin_world =
     (Inr (), twin_world\<lparr>files := [DEFAULT_DB \<mapsto> Json (JArr [to_dict item_report])],
                         tmp_names := []\<rparr>)"
    using save_items_succeeds [OF m, of "[item_report]"]
    by (simp add: p) (simp add: twin_world_def demo_world_def)
  have f: "fault twin_world \<noteq> Some Open"
    by (simp add: twin_world_def demo_world_def)
  have o: "stdout twin_world = []"
    by (simp add: twin_world_def demo_world_def)
  have t: "id' item_twin = id' item_milk"
    by (simp add: item_twin_def)
  note T = cmd_delete_removes_all [OF twin_load, of ?a ?w]
  have c: "cmd_delete ?a None twin_world = (Inr 0, ?w)"
    using T [THEN conjunct1] mem
    by (simp del: filter.simps add: k s print_out_def o)
  from T [THEN conjunct2, rule_format, OF c]
  have "fault twin_world \<noteq> Some Open \<longrightarrow>
          load_items None ?w =
            (Inr (filter (\<lambda>it. id' it \<noteq> d_id ?a) [item_milk, item_report, item_twin]), ?w)"
    by (rule conjunct2 [THEN conjunct2])
  with f have "load_items None ?w = (Inr [item_report], ?w)"
    by (simp del: filter.simps add: k)
  with c twin_load t show ?thesis
    by (simp del: filter.simps)
qed

text \<open>
  C5. The claim as the specification states it fails in its first part. \<^verbatim>\<open>created_at\<close>
  and \<^verbatim>\<open>updated_at\<close> have a default factory each, so the clock is read twice, and a
  clock that has advanced between the two readings gives a fresh item two different
  timestamps.
\<close>

theorem new_TodoItem_clock_counterexample:
  "created_at (fst (new_TodoItem ''Buy milk'' None None None None None demo_world)) =
     ''2024-05-03T08:00:00.000000+00:00'' \<and>
   updated_at (fst (new_TodoItem ''Buy milk'' None None None None None demo_world)) =
     ''2024-05-03T08:00:00.000001+00:00'' \<and>
   created_at (fst (new_TodoItem ''Buy milk'' None None None None None demo_world)) \<noteq>
   updated_at (fst (new_TodoItem ''Buy milk'' None None None None None demo_world))"
  by (simp add: new_TodoItem_def new_id_def now_iso_def demo_world_def demo_clock01 demo_Suc0)

text \<open>
  C5, amended. Every item constructed from a title, an optional category and an optional
  \<^verbatim>\<open>done\<close> value has that title, the category given or \<^verbatim>\<open>General\<close>, \<^verbatim>\<open>done\<close> as given or
  false, and as its id the text of the UUID drawn for it. The id has 36 characters, so it
  is not empty, and it differs from the id of every other constructed item, that is, of
  an item for which the same source of UUIDs is asked at another draw, the source having
  returned no value twice up to the later of the two draws. \<^verbatim>\<open>created_at\<close> and
  \<^verbatim>\<open>updated_at\<close> are the next two readings of the clock, in this order, and they are
  equal exactly when the two readings are.
\<close>

theorem new_TodoItem_fresh:
  "new_TodoItem t c d None None None w =
     (\<lparr>title = t,
       category = (case c of None \<Rightarrow> ''General'' | Some v \<Rightarrow> v),
       done' = (case d of None \<Rightarrow> False | Some v \<Rightarrow> v),
       id' = uuid_str (uuid_src w (uuid_n w)),
       created_at = clock w (ticks w),
       updated_at = clock w (Suc (ticks w))\<rparr>,
      w\<lparr>uuid_n := Suc (uuid_n w), ticks := Suc (Suc (ticks w))\<rparr>) \<and>
   length (id' (fst (new_TodoItem t c d None None None w))) = 36 \<and>
   id' (fst (new_TodoItem t c d None None None w)) \<noteq> [] \<and>
   (uuid_src w2 = uuid_src w \<and> uuid_n w2 \<noteq> uuid_n w \<and>
    inj_on (uuid_src w) {..max (uuid_n w) (uuid_n w2)} \<longrightarrow>
      id' (fst (new_TodoItem t c d None None None w)) \<noteq>
      id' (fst (new_TodoItem t2 c2 d2 None None None w2))) \<and>
   (created_at (fst (new_TodoItem t c d None None None w)) =
    updated_at (fst (new_TodoItem t c d None None None w)) \<longleftrightarrow>
      clock w (ticks w) = clock w (Suc (ticks w)))"
proof -
  have n: "new_TodoItem t c d None None None w =
     (\<lparr>title = t,
       category = (case c of None \<Rightarrow> ''General'' | Some v \<Rightarrow> v),
       done' = (case d of None \<Rightarrow> False | Some v \<Rightarrow> v),
       id' = uuid_str (uuid_src w (uuid_n w)),
       created_at = clock w (ticks w),
       updated_at = clock w (Suc (ticks w))\<rparr>,
      w\<lparr>uuid_n := Suc (uuid_n w), ticks := Suc (Suc (ticks w))\<rparr>)" for t c d w
    by (simp add: new_TodoItem_def new_id_def now_iso_def)
  have l: "length (uuid_str (uuid_src w (uuid_n w))) = 36"
    by (rule length_uuid_str)
  then have ne: "uuid_str (uuid_src w (uuid_n w)) \<noteq> []"
    by auto
  have i: "uuid_str (uuid_src w (uuid_n w)) \<noteq> uuid_str (uuid_src w2 (uuid_n w2))"
    if same: "uuid_src w2 = uuid_src w" and other: "uuid_n w2 \<noteq> uuid_n w"
      and inj: "inj_on (uuid_src w) {..max (uuid_n w) (uuid_n w2)}"
  proof -
    have "uuid_n w \<in> {..max (uuid_n w) (uuid_n w2)}"
      "uuid_n w2 \<in> {..max (uuid_n w) (uuid_n w2)}"
      by simp_all
    with other inj have "uuid_src w (uuid_n w) \<noteq> uuid_src w (uuid_n w2)"
      by (auto dest: inj_onD)
    with same have "uuid_src w (uuid_n w) \<noteq> uuid_src w2 (uuid_n w2)"
      by simp
    then show ?thesis
      using uuid_str_inj by blast
  qed
  show ?thesis
    unfolding n fst_conv TodoItem.simps
    using l ne i by simp
qed

text \<open>
  Two items constructed one after the other in the example world, the second in the
  world that the first construction leaves.
\<close>

theorem new_TodoItem_fresh_witness:
  "uuid_src (demo_world\<lparr>uuid_n := 1, ticks := 2\<rparr>) = uuid_src demo_world \<and>
   uuid_n (demo_world\<lparr>uuid_n := 1, ticks := 2\<rparr>) \<noteq> uuid_n demo_world \<and>
   inj_on (uuid_src demo_world)
     {..max (uuid_n demo_world) (uuid_n (demo_world\<lparr>uuid_n := 1, ticks := 2\<rparr>))} \<and>
   new_TodoItem ''Buy milk'' None None None None None demo_world =
     (\<lparr>title = ''Buy milk'', category = ''General'', done' = False,
       id' = ''3b241101-e2bb-4255-a8ca-f25ed2c4f7a0'',
       created_at = ''2024-05-03T08:00:00.000000+00:00'',
       updated_at = ''2024-05-03T08:00:00.000001+00:00''\<rparr>,
      demo_world\<lparr>uuid_n := 1, ticks := 2\<rparr>) \<and>
   id' (fst (new_TodoItem ''Sprint review'' (Some ''Work'') None None None None
               (demo_world\<lparr>uuid_n := 1, ticks := 2\<rparr>))) =
     ''3b241101-e2bb-4255-a8ca-f25ed2c4f7a1'' \<and>
   id' (fst (new_TodoItem ''Buy milk'' None None None None None demo_world)) \<noteq>
   id' (fst (new_TodoItem ''Sprint review'' (Some ''Work'') None None None None
               (demo_world\<lparr>uuid_n := 1, ticks := 2\<rparr>)))"
proof -
  let ?w2 = "demo_world\<lparr>uuid_n := 1, ticks := 2\<rparr>"
  have u: "uuid_src demo_world = demo_uuids" "uuid_n demo_world = 0"
    "clock demo_world = demo_clock" "ticks demo_world = 0"
    by (simp_all add: demo_world_def)
  have a: "uuid_src ?w2 = uuid_src demo_world" by simp
  have b: "uuid_n ?w2 \<noteq> uuid_n demo_world" by (simp add: u)
  have "demo_uuids 0 \<noteq> demo_uuids 1"
    by (simp add: demo_uuids_def)
  moreover have "{..max (uuid_n demo_world) (uuid_n ?w2)} = {0, 1}"
    by (auto simp: u)
  ultimately have c: "inj_on (uuid_src demo_world) {..max (uuid_n demo_world) (uuid_n ?w2)}"
    by (simp add: u)
  have two: "Suc (Suc 0) = 2" by simp
  have s: "id' (fst (new_TodoItem ''Sprint review'' (Some ''Work'') None None None None ?w2)) =
     ''3b241101-e2bb-4255-a8ca-f25ed2c4f7a1''"
    by (simp add: new_TodoItem_def new_id_def now_iso_def u demo_Suc0)
  note T = new_TodoItem_fresh [of "''Buy milk''" None None demo_world ?w2 "''Sprint review''"
                                 "Some ''Work''" None]
  from T [THEN conjunct1]
  have n: "new_TodoItem ''Buy milk'' None None None None None demo_world =
     (\<lparr>title = ''Buy milk'', category = ''General'', done' = False,
       id' = ''3b241101-e2bb-4255-a8ca-f25ed2c4f7a0'',
       created_at = ''2024-05-03T08:00:00.000000+00:00'',
       updated_at = ''2024-05-03T08:00:00.000001+00:00''\<rparr>,
      demo_world\<lparr>uuid_n := 1, ticks := 2\<rparr>)"
    by (simp add: u demo_uuid0 demo_clock01 demo_Suc0 two)
  from T [THEN conjunct2, THEN conjunct2, THEN conjunct2, THEN conjunct1] a b c
  have d: "id' (fst (new_TodoItem ''Buy milk'' None None None None None demo_world)) \<noteq>
   id' (fst (new_TodoItem ''Sprint review'' (Some ''Work'') None None None None ?w2))"
    by (simp only: simp_thms)
  from a b c n s d show ?thesis
    by (simp only: simp_thms)
qed

text \<open>
  C4. The claim as the specification states it fails: \<^verbatim>\<open>cls(**data)\<close> calls the generated
  \<^verbatim>\<open>__init__\<close>, whose parameters other than \<^verbatim>\<open>title\<close> have defaults. A mapping with a
  title and nothing else gives an item, its five other fields filled in.
\<close>

theorem from_dict_missing_fields_counterexample:
  "map_of [(''title'', JStr ''Buy milk'')] ''category'' = None \<and>
   map_of [(''title'', JStr ''Buy milk'')] ''done'' = None \<and>
   map_of [(''title'', JStr ''Buy milk'')] ''id'' = None \<and>
   map_of [(''title'', JStr ''Buy milk'')] ''created_at'' = None \<and>
   map_of [(''title'', JStr ''Buy milk'')] ''updated_at'' = None \<and>
   from_dict (JObj [(''title'', JStr ''Buy milk'')]) demo_world =
     (Inr \<lparr>title = ''Buy milk'', category = ''General'', done' = False,
           id' = ''3b241101-e2bb-4255-a8ca-f25ed2c4f7a0'',
           created_at = ''2024-05-03T08:00:00.000000+00:00'',
           updated_at = ''2024-05-03T08:00:00.000001+00:00''\<rparr>,
      demo_world\<lparr>uuid_n := 1, ticks := 2\<rparr>)"
proof -
  have u: "uuid_src demo_world = demo_uuids" "uuid_n demo_world = 0"
    "clock demo_world = demo_clock" "ticks demo_world = 0"
    by (simp_all add: demo_world_def)
  show ?thesis
    by (simp add: field_names_def get_str_def get_bool_def new_TodoItem_def new_id_def
          now_iso_def u demo_uuid0 demo_clock01 demo_Suc0)
qed

text \<open>
  C4, amended. \<^verbatim>\<open>from_dict\<close> of a mapping raises \<^verbatim>\<open>TypeError\<close> exactly when a key is not
  the name of a field or \<^verbatim>\<open>title\<close> is missing. For every mapping whose keys are names of
  fields, whose values have the types of their fields and which has a title, it returns
  an item that has every field of the mapping as given and, for each field that is
  missing, the default: \<^verbatim>\<open>General\<close> for the category, false for \<^verbatim>\<open>done\<close>, the text of a
  newly drawn UUID for the id, the next reading of the clock for \<^verbatim>\<open>created_at\<close> and the
  reading after it (the next one, when \<^verbatim>\<open>created_at\<close> was given) for \<^verbatim>\<open>updated_at\<close>.
\<close>

theorem from_dict_defaults:
  "(fst (from_dict (JObj kvs) w) = Inl TypeError \<longleftrightarrow>
      \<not> set (map fst kvs) \<subseteq> set field_names \<or> map_of kvs ''title'' = None) \<and>
   (set (map fst kvs) \<subseteq> set field_names \<and> list_all well_typed_entry kvs \<and>
    map_of kvs ''title'' = Some (JStr t) \<longrightarrow>
      (\<exists>item w'. from_dict (JObj kvs) w = (Inr item, w') \<and>
         title item = t \<and>
         (case map_of kvs ''category'' of
            None \<Rightarrow> category item = ''General''
          | Some v \<Rightarrow> v = JStr (category item)) \<and>
         (case map_of kvs ''done'' of
            None \<Rightarrow> done' item = False
          | Some v \<Rightarrow> v = JBool (done' item)) \<and>
         (case map_of kvs ''id'' of
            None \<Rightarrow> id' item = uuid_str (uuid_src w (uuid_n w))
          | Some v \<Rightarrow> v = JStr (id' item)) \<and>
         (case map_of kvs ''created_at'' of
            None \<Rightarrow> created_at item = clock w (ticks w)
          | Some v \<Rightarrow> v = JStr (created_at item)) \<and>
         (case map_of kvs ''updated_at'' of
            None \<Rightarrow> updated_at item =
                     clock w (if map_of kvs ''created_at'' = None then Suc (ticks w)
                              else ticks w)
          | Some v \<Rightarrow> v = JStr (updated_at item))))"
proof (intro conjI impI)
  have ex: "list_ex (\<lambda>k. k \<notin> set field_names) (map fst kvs) \<longleftrightarrow>
            \<not> set (map fst kvs) \<subseteq> set field_names"
    by (auto simp: list_ex_iff)
  show "fst (from_dict (JObj kvs) w) = Inl TypeError \<longleftrightarrow>
      \<not> set (map fst kvs) \<subseteq> set field_names \<or> map_of kvs ''title'' = None"
    unfolding ex [symmetric]
    by (auto split: option.splits json.splits prod.splits)
next
  assume a: "set (map fst kvs) \<subseteq> set field_names \<and> list_all well_typed_entry kvs \<and>
    map_of kvs ''title'' = Some (JStr t)"
  then have keys: "\<not> list_ex (\<lambda>k. k \<notin> set field_names) (map fst kvs)"
    and wt: "list_all well_typed_entry kvs" and ti: "map_of kvs ''title'' = Some (JStr t)"
    by (auto simp: list_ex_iff)
  note c = get_str_well_typed [OF wt, of "''category''"]
  note i = get_str_well_typed [OF wt, of "''id''"]
  note ca = get_str_well_typed [OF wt, of "''created_at''"]
  note ua = get_str_well_typed [OF wt, of "''updated_at''"]
  note d = get_bool_well_typed [OF wt]
  obtain item w' where n:
    "new_TodoItem t (get_str kvs ''category'') (get_bool kvs ''done'') (get_str kvs ''id'')
       (get_str kvs ''created_at'') (get_str kvs ''updated_at'') w = (item, w')"
    by (cases "new_TodoItem t (get_str kvs ''category'') (get_bool kvs ''done'')
       (get_str kvs ''id'') (get_str kvs ''created_at'') (get_str kvs ''updated_at'') w")
  with keys wt ti have f: "from_dict (JObj kvs) w = (Inr item, w')"
    by simp
  have t1: "title item = t"
    using n by (auto simp: new_TodoItem_def split: prod.splits)
  have t2: "case map_of kvs ''category'' of
            None \<Rightarrow> category item = ''General''
          | Some v \<Rightarrow> v = JStr (category item)"
    using n c by (auto simp: new_TodoItem_def split: prod.splits option.splits)
  have t3: "case map_of kvs ''done'' of
            None \<Rightarrow> done' item = False
          | Some v \<Rightarrow> v = JBool (done' item)"
    using n d by (auto simp: new_TodoItem_def split: prod.splits option.splits)
  have t4: "case map_of kvs ''id'' of
            None \<Rightarrow> id' item = uuid_str (uuid_src w (uuid_n w))
          | Some v \<Rightarrow> v = JStr (id' item)"
    using n i by (auto simp: new_TodoItem_def new_id_def split: prod.splits option.splits)
  have t5: "case map_of kvs ''created_at'' of
            None \<Rightarrow> created_at item = clock w (ticks w)
          | Some v \<Rightarrow> v = JStr (created_at item)"
    using n ca
    by (auto simp: new_TodoItem_def new_id_def now_iso_def split: prod.splits option.splits)
  have t6: "case map_of kvs ''updated_at'' of
            None \<Rightarrow> updated_at item =
                     clock w (if map_of kvs ''created_at'' = None then Suc (ticks w)
                              else ticks w)
          | Some v \<Rightarrow> v = JStr (updated_at item)"
    using n ca ua
    by (auto simp: new_TodoItem_def new_id_def now_iso_def split: prod.splits option.splits)
  from f t1 t2 t3 t4 t5 t6
  show "\<exists>item w'. from_dict (JObj kvs) w = (Inr item, w') \<and>
         title item = t \<and>
         (case map_of kvs ''category'' of
            None \<Rightarrow> category item = ''General''
          | Some v \<Rightarrow> v = JStr (category item)) \<and>
         (case map_of kvs ''done'' of
            None \<Rightarrow> done' item = False
          | Some v \<Rightarrow> v = JBool (done' item)) \<and>
         (case map_of kvs ''id'' of
            None \<Rightarrow> id' item = uuid_str (uuid_src w (uuid_n w))
          | Some v \<Rightarrow> v = JStr (id' item)) \<and>
         (case map_of kvs ''created_at'' of
            None \<Rightarrow> created_at item = clock w (ticks w)
          | Some v \<Rightarrow> v = JStr (created_at item)) \<and>
         (case map_of kvs ''updated_at'' of
            None \<Rightarrow> updated_at item =
                     clock w (if map_of kvs ''created_at'' = None then Suc (ticks w)
                              else ticks w)
          | Some v \<Rightarrow> v = JStr (updated_at item))"
    by blast
qed

theorem from_dict_defaults_witness:
  "set (map fst [(''title'', JStr ''Sprint review''), (''category'', JStr ''Work'')])
     \<subseteq> set field_names \<and>
   list_all well_typed_entry [(''title'', JStr ''Sprint review''), (''category'', JStr ''Work'')] \<and>
   map_of [(''title'', JStr ''Sprint review''), (''category'', JStr ''Work'')] ''title'' =
     Some (JStr ''Sprint review'') \<and>
   from_dict (JObj [(''title'', JStr ''Sprint review''), (''category'', JStr ''Work'')])
       demo_world =
     (Inr \<lparr>title = ''Sprint review'', category = ''Work'', done' = False,
           id' = ''3b241101-e2bb-4255-a8ca-f25ed2c4f7a0'',
           created_at = ''2024-05-03T08:00:00.000000+00:00'',
           updated_at = ''2024-05-03T08:00:00.000001+00:00''\<rparr>,
      demo_world\<lparr>uuid_n := 1, ticks := 2\<rparr>) \<and>
   fst (from_dict (JObj [(''category'', JStr ''Work'')]) demo_world) = Inl TypeError"
proof -
  have u: "uuid_src demo_world = demo_uuids" "uuid_n demo_world = 0"
    "clock demo_world = demo_clock" "ticks demo_world = 0"
    by (simp_all add: demo_world_def)
  have m: "map_of [(''category'', JStr ''Work'')] ''title'' = None"
    by simp
  from from_dict_defaults [of "[(''category'', JStr ''Work'')]" demo_world] m
  have e: "fst (from_dict (JObj [(''category'', JStr ''Work'')]) demo_world) = Inl TypeError"
    by blast
  have f: "from_dict (JObj [(''title'', JStr ''Sprint review''), (''category'', JStr ''Work'')])
       demo_world =
     (Inr \<lparr>title = ''Sprint review'', category = ''Work'', done' = False,
           id' = ''3b241101-e2bb-4255-a8ca-f25ed2c4f7a0'',
           created_at = ''2024-05-03T08:00:00.000000+00:00'',
           updated_at = ''2024-05-03T08:00:00.000001+00:00''\<rparr>,
      demo_world\<lparr>uuid_n := 1, ticks := 2\<rparr>)"
    by (simp add: field_names_def get_str_def get_bool_def new_TodoItem_def new_id_def
          now_iso_def u demo_uuid0 demo_clock01 demo_Suc0)
  from e f show ?thesis
    by (simp add: field_names_def)
qed

end
